theory Spec2Isabelle
  imports Complex_Main
begin

section \<open>The response event of \<^verbatim>\<open>prompting/dendrite.py\<close>\<close>

subsection \<open>Objects and the store\<close>

text \<open>
  The constructor of \<^verbatim>\<open>DendriteResponseEvent\<close> receives a Python list of
  synapse objects and assigns to an attribute of the terminal metadata object each of
  them points to (\<^verbatim>\<open>synapse.dendrite.status_code = 204\<close>). Objects are
  therefore kept in a store and named by references: the same synapse may stand twice
  in the list, and two synapses may share one metadata object. Every reference
  denotes an object, as in Python, so the store is a total function.

  Python floats are modelled as reals: the constructor only tests them for
  truthiness and copies them, it never computes with them.
\<close>

type_synonym ref = nat

record TerminalInfo =
  process_time :: "real option"
  status_code :: int
  status_message :: string

record Synapse =
  completion :: string
  dendrite :: ref

record store =
  synapse_at :: "ref \<Rightarrow> Synapse"
  terminal_at :: "ref \<Rightarrow> TerminalInfo"

record DendriteResponseEvent =
  uids :: "int list"
  completions :: "string list"
  status_messages :: "string list"
  status_codes :: "int list"
  timings :: "real list"

text \<open>\<^verbatim>\<open>synapse.completion\<close> and \<^verbatim>\<open>synapse.dendrite\<close>, read through the store.\<close>

definition get_completion :: "store \<Rightarrow> ref \<Rightarrow> string" where
  "get_completion h synapse = completion (synapse_at h synapse)"

definition get_dendrite :: "store \<Rightarrow> ref \<Rightarrow> TerminalInfo" where
  "get_dendrite h synapse = terminal_at h (dendrite (synapse_at h synapse))"

text \<open>The assignment \<^verbatim>\<open>synapse.dendrite.status_code = c\<close>.\<close>

definition set_status_code :: "store \<Rightarrow> ref \<Rightarrow> int \<Rightarrow> store" where
  "set_status_code h synapse c =
     h\<lparr>terminal_at := (terminal_at h)
        (dendrite (synapse_at h synapse) := (get_dendrite h synapse)\<lparr>status_code := c\<rparr>)\<rparr>"

text \<open>
  Truthiness of \<^verbatim>\<open>process_time\<close> (\<^verbatim>\<open>None\<close> and \<^verbatim>\<open>0.0\<close> are falsy), and
  the expression \<^verbatim>\<open>process_time or timeout\<close>.
\<close>

fun truthy :: "real option \<Rightarrow> bool" where
  "truthy None = False"
| "truthy (Some x) = (x \<noteq> 0)"

fun py_or :: "real option \<Rightarrow> real \<Rightarrow> real" where
  "py_or None y = y"
| "py_or (Some x) y = (if x \<noteq> 0 then x else y)"

subsection \<open>The constructor\<close>

text \<open>The body of \<^verbatim>\<open>for synapse in responses\<close> (lines 17 to 33), on \<^verbatim>\<open>self\<close> and the store.\<close>

definition loop_body ::
  "real \<Rightarrow> ref \<Rightarrow> DendriteResponseEvent \<times> store \<Rightarrow> DendriteResponseEvent \<times> store" where
  "loop_body timeout synapse st =
     (let (self, h) = st;
          self = self\<lparr>completions := completions self @ [get_completion h synapse]\<rparr>;
          self = self\<lparr>status_messages :=
                   status_messages self @ [status_message (get_dendrite h synapse)]\<rparr>;
          h = (if length (get_completion h synapse) = 0
                  \<and> status_code (get_dendrite h synapse) = 200
               then set_status_code h synapse 204 else h);
          self = self\<lparr>status_codes :=
                   status_codes self @ [status_code (get_dendrite h synapse)]\<rparr>;
          self = (if truthy (process_time (get_dendrite h synapse))
                     \<and> (status_code (get_dendrite h synapse) = 200
                          \<or> status_code (get_dendrite h synapse) = 204)
                  then self\<lparr>timings :=
                         timings self @ [the (process_time (get_dendrite h synapse))]\<rparr>
                  else if status_code (get_dendrite h synapse) = 408
                  then self\<lparr>timings := timings self @ [timeout]\<rparr>
                  else self\<lparr>timings := timings self @ [0]\<rparr>)
      in (self, h))"

fun for_synapse_in ::
  "real \<Rightarrow> ref list \<Rightarrow> DendriteResponseEvent \<times> store \<Rightarrow> DendriteResponseEvent \<times> store" where
  "for_synapse_in timeout [] st = st"
| "for_synapse_in timeout (synapse # rest) st =
     for_synapse_in timeout rest (loop_body timeout synapse st)"

text \<open>Lines 10 to 33: the attributes are initialised and the loop runs.\<close>

definition first_pass ::
  "ref list \<Rightarrow> int list \<Rightarrow> real \<Rightarrow> store \<Rightarrow> DendriteResponseEvent \<times> store" where
  "first_pass responses uids_arg timeout h =
     for_synapse_in timeout responses
       (\<lparr>uids = uids_arg, completions = [], status_messages = [], status_codes = [],
         timings = []\<rparr>, h)"

text \<open>
  \<^verbatim>\<open>DendriteResponseEvent.__init__\<close>: the loop, then the four comprehensions of lines
  35 to 42, which read the store the loop has left. The result is the object and the
  store after the call.
\<close>

definition DendriteResponseEvent_init ::
  "ref list \<Rightarrow> int list \<Rightarrow> real \<Rightarrow> store \<Rightarrow> DendriteResponseEvent \<times> store" where
  "DendriteResponseEvent_init responses uids_arg timeout h0 =
     (let (self, h) = first_pass responses uids_arg timeout h0;
          self = self\<lparr>completions := map (get_completion h) responses\<rparr>;
          self = self\<lparr>timings :=
                   map (\<lambda>synapse. py_or (process_time (get_dendrite h synapse)) timeout)
                     responses\<rparr>;
          self = self\<lparr>status_messages :=
                   map (\<lambda>synapse. status_message (get_dendrite h synapse)) responses\<rparr>;
          self = self\<lparr>status_codes :=
                   map (\<lambda>synapse. status_code (get_dendrite h synapse)) responses\<rparr>
      in (self, h))"

text \<open>
  The timing the loop appends for a response (lines 25 to 33), as a function of the
  round timeout and of the terminal metadata read at that moment. The loop above does
  not call it; it serves to state what the loop has computed before lines 35 to 42
  assign the attributes anew.
\<close>

definition classified_timing :: "real \<Rightarrow> TerminalInfo \<Rightarrow> real" where
  "classified_timing timeout d =
     (if truthy (process_time d) \<and> (status_code d = 200 \<or> status_code d = 204)
      then the (process_time d)
      else if status_code d = 408 then timeout
      else 0)"

section \<open>The conversation state of \<^verbatim>\<open>prompting/llms/vllm_llm.py\<close>\<close>

text \<open>
  A message is a dictionary with the keys \<^verbatim>\<open>content\<close> and \<^verbatim>\<open>role\<close>. An object of class
  \<^verbatim>\<open>vLLM_LLM\<close> carries the system prompt and the keyword arguments handed to the
  superclass constructor, and the two lists \<^verbatim>\<open>messages\<close> and \<^verbatim>\<open>times\<close> (the field is
  \<open>times_list\<close> here, \<open>times\<close> being multiplication in HOL).

  The pipeline \<^verbatim>\<open>self.llm_pipeline\<close> and the method \<^verbatim>\<open>clean_response\<close> of the
  superclass, applied to the cleaner of the call, are not defined in this file of the
  repository: they are parameters of a call, and either of them may raise. The two
  readings of \<^verbatim>\<open>time.time()\<close> are parameters as well. Logging is left out.
\<close>

datatype exn = Exception string

record Message =
  content :: string
  role :: string

record ModelKwargs =
  temperature :: real
  top_p :: real
  max_tokens :: int

record vLLM_LLM =
  system_prompt :: string
  model_kwargs :: ModelKwargs
  messages :: "Message list"
  times_list :: "real list"

text \<open>
  \<^verbatim>\<open>vLLM_LLM.__init__\<close>: the superclass constructor is taken to store the system
  prompt and the keyword arguments; lines 111 and 112 then set the two lists.
\<close>

definition vLLM_LLM_init :: "string \<Rightarrow> int \<Rightarrow> real \<Rightarrow> real \<Rightarrow> vLLM_LLM" where
  "vLLM_LLM_init system_prompt_arg max_new_tokens temperature_arg top_p_arg =
     \<lparr>system_prompt = system_prompt_arg,
      model_kwargs = \<lparr>temperature = temperature_arg, top_p = top_p_arg,
                       max_tokens = max_new_tokens\<rparr>,
      messages = [\<lparr>content = system_prompt_arg, role = ''system''\<rparr>],
      times_list = [0]\<rparr>"

text \<open>\<^verbatim>\<open>_make_prompt\<close>: the loop over the messages, then the closing tag.\<close>

fun make_prompt_loop :: "Message list \<Rightarrow> string \<Rightarrow> string" where
  "make_prompt_loop [] composed_prompt = composed_prompt"
| "make_prompt_loop (message # rest) composed_prompt =
     make_prompt_loop rest
       (if role message = ''system''
        then composed_prompt
          @ ''<|begin_of_text|><|start_header_id|>system<|end_header_id|>'' @ [CHR 0x0A]
          @ ''{{ '' @ content message @ '' }}<|eot_id|>''
        else if role message = ''user''
        then composed_prompt
          @ ''<|start_header_id|>user<|end_header_id|>'' @ [CHR 0x0A]
          @ ''{{ '' @ content message @ '' }}<|eot_id|>''
        else if role message = ''assistant''
        then composed_prompt
          @ ''<|start_header_id|>assistant<|end_header_id|>'' @ [CHR 0x0A]
          @ ''{{ '' @ content message @ '' }}<|eot_id|>''
        else composed_prompt)"

definition make_prompt :: "Message list \<Rightarrow> string" where
  "make_prompt msgs =
     make_prompt_loop msgs [] @ ''<|start_header_id|>assistant<|end_header_id|>''"

definition forward ::
  "(string \<Rightarrow> ModelKwargs \<Rightarrow> exn + string) \<Rightarrow> vLLM_LLM \<Rightarrow> Message list \<Rightarrow> exn + string" where
  "forward llm_pipeline self msgs =
     (let composed_prompt = make_prompt msgs;
          response = llm_pipeline composed_prompt (model_kwargs self)
      in response)"

text \<open>
  \<^verbatim>\<open>vLLM_LLM.query\<close>. An exception of the pipeline or of the cleaner leaves the call
  before lines 128 and 129, so the object is as it was; otherwise the call returns the
  response and the object with both lists extended. The parameter
  \<^verbatim>\<open>disregard_system_prompt\<close> is not read by the body.
\<close>

definition query ::
  "(string \<Rightarrow> ModelKwargs \<Rightarrow> exn + string) \<Rightarrow> (string \<Rightarrow> exn + string) \<Rightarrow> real \<Rightarrow> real
     \<Rightarrow> vLLM_LLM \<Rightarrow> string \<Rightarrow> string \<Rightarrow> exn + string \<times> vLLM_LLM" where
  "query llm_pipeline clean_response t0 t1 self message role_arg =
     (let msgs = messages self @ [\<lparr>content = message, role = role_arg\<rparr>] in
      case forward llm_pipeline self msgs of
        Inl e \<Rightarrow> Inl e
      | Inr response \<Rightarrow>
          (case clean_response response of
             Inl e \<Rightarrow> Inl e
           | Inr response \<Rightarrow>
               (let self = self\<lparr>messages :=
                             msgs @ [\<lparr>content = response, role = ''assistant''\<rparr>]\<rparr>;
                    self = self\<lparr>times_list := times_list self @ [0, t1 - t0]\<rparr>
                in Inr (response, self))))"

text \<open>
  A call of \<^verbatim>\<open>query\<close> with everything it depends on, the object after one call
  (unchanged when the call raised), and the object after a sequence of calls.
\<close>

type_synonym query_call =
  "(string \<Rightarrow> ModelKwargs \<Rightarrow> exn + string) \<times> (string \<Rightarrow> exn + string) \<times> real \<times> real
     \<times> string \<times> string"

fun after_query :: "vLLM_LLM \<Rightarrow> query_call \<Rightarrow> vLLM_LLM" where
  "after_query self (llm_pipeline, clean_response, t0, t1, message, role_arg) =
     (case query llm_pipeline clean_response t0 t1 self message role_arg of
        Inl e \<Rightarrow> self
      | Inr (response, self') \<Rightarrow> self')"

fun after_queries :: "vLLM_LLM \<Rightarrow> query_call list \<Rightarrow> vLLM_LLM" where
  "after_queries self [] = self"
| "after_queries self (c # cs) = after_queries (after_query self c) cs"

section \<open>Example inputs\<close>

text \<open>
  A batch of fresh response objects: response \<open>r\<close> of the list is the synapse at reference
  \<open>r\<close>, with a terminal metadata object of its own at reference \<open>r\<close>. An entry gives
  the completion, the process time, the status code and the status message.
\<close>

definition batch_store :: "(string \<times> real option \<times> int \<times> string) list \<Rightarrow> store" where
  "batch_store xs =
     \<lparr>synapse_at = (\<lambda>r. \<lparr>completion = (if r < length xs then fst (xs ! r) else []),
                           dendrite = r\<rparr>),
      terminal_at = (\<lambda>r. if r < length xs
                           then \<lparr>process_time = fst (snd (xs ! r)),
                                 status_code = fst (snd (snd (xs ! r))),
                                 status_message = snd (snd (snd (xs ! r)))\<rparr>
                           else \<lparr>process_time = None, status_code = 0, status_message = []\<rparr>)\<rparr>"

text \<open>Two successful nodes, the first of which answered with the empty string.\<close>

definition two_answers :: store where
  "two_answers = batch_store [([], Some (1/20), 200, ''OK''), (''Paris'', Some (3/100), 200, ''OK'')]"

text \<open>One successful node that answered with the empty string.\<close>

definition empty_answer :: store where
  "empty_answer = batch_store [([], Some (1/20), 200, ''OK'')]"

text \<open>
  Two synapses that point to one metadata object: the first has the empty completion,
  the second has not.
\<close>

definition shared_metadata :: store where
  "shared_metadata =
     \<lparr>synapse_at = (\<lambda>r. \<lparr>completion = (if r = 0 then [] else ''Paris''), dendrite = 0\<rparr>),
      terminal_at = (\<lambda>d. \<lparr>process_time = Some (1/20), status_code = 200,
                            status_message = ''OK''\<rparr>)\<rparr>"

text \<open>
  One node that ran into the timeout after 0.15 seconds, and one node that could not
  be reached, so that no process time was measured.
\<close>

definition timed_out :: store where
  "timed_out = batch_store [([], Some (3/20), 408, ''Timeout'')]"

definition unreachable :: store where
  "unreachable = batch_store [([], None, 503, ''Service unavailable'')]"

text \<open>A pipeline with a fixed answer, one that raises, and no cleaning.\<close>

definition fixed_pipeline :: "string \<Rightarrow> ModelKwargs \<Rightarrow> exn + string" where
  "fixed_pipeline composed_prompt kwargs = Inr ''Austin''"

definition failing_pipeline :: "string \<Rightarrow> ModelKwargs \<Rightarrow> exn + string" where
  "failing_pipeline composed_prompt kwargs = Inl (Exception ''out of memory'')"

definition no_cleaner :: "string \<Rightarrow> exn + string" where
  "no_cleaner response = Inr response"

definition helpful :: vLLM_LLM where
  "helpful = vLLM_LLM_init ''You are a helpful AI assistant'' 256 (7/10) (19/20)"

text \<open>The same object after a question was answered within two seconds.\<close>

definition helpful_answered :: vLLM_LLM where
  "helpful_answered =
     helpful\<lparr>messages := messages helpful
               @ [\<lparr>content = ''What is the capital of Texas?'', role = ''user''\<rparr>,
                  \<lparr>content = ''Austin'', role = ''assistant''\<rparr>],
             times_list := [0, 0, 2]\<rparr>"

section \<open>Properties of the constructor\<close>

subsection \<open>What the loop does to the store\<close>

lemma loop_body_store:
  "snd (loop_body timeout synapse (self, h)) =
     (if get_completion h synapse = [] \<and> status_code (get_dendrite h synapse) = 200
      then set_status_code h synapse 204 else h)"
  by (simp add: loop_body_def Let_def)

lemma set_status_code_synapse_at [simp]:
  "synapse_at (set_status_code h r c) = synapse_at h"
  by (simp add: set_status_code_def)

lemma loop_body_synapse_at:
  "synapse_at (snd (loop_body t r st)) = synapse_at (snd st)"
  by (cases st) (simp add: loop_body_store)

lemma for_synapse_in_synapse_at:
  "synapse_at (snd (for_synapse_in t rs st)) = synapse_at (snd st)"
  by (induction rs arbitrary: st) (simp_all add: loop_body_synapse_at)

lemma loop_body_terminal_at:
  "terminal_at (snd (loop_body t r st)) d =
     (if status_code (terminal_at (snd st) d) = 200
         \<and> dendrite (synapse_at (snd st) r) = d \<and> completion (synapse_at (snd st) r) = []
      then (terminal_at (snd st) d)\<lparr>status_code := 204\<rparr>
      else terminal_at (snd st) d)"
  by (cases st) (simp add: loop_body_store set_status_code_def get_dendrite_def get_completion_def)

lemma loop_body_uids: "uids (fst (loop_body t r st)) = uids (fst st)"
  by (cases st) (simp add: loop_body_def Let_def)

lemma for_synapse_in_uids: "uids (fst (for_synapse_in t rs st)) = uids (fst st)"
  by (induction rs arbitrary: st) (simp_all add: loop_body_uids)

lemma reclassify_twice:
  "(if status_code (if status_code T = 200 \<and> A then T\<lparr>status_code := 204\<rparr> else T) = 200 \<and> B
    then (if status_code T = 200 \<and> A then T\<lparr>status_code := 204\<rparr> else T)\<lparr>status_code := 204\<rparr>
    else (if status_code T = 200 \<and> A then T\<lparr>status_code := 204\<rparr> else T))
   = (if status_code T = 200 \<and> (A \<or> B) then T\<lparr>status_code := 204\<rparr> else T)"
  by (cases "status_code T = 200"; cases A; cases B; simp)

lemma for_synapse_in_terminal_at:
  "terminal_at (snd (for_synapse_in t rs st)) d =
     (if status_code (terminal_at (snd st) d) = 200
         \<and> (\<exists>r \<in> set rs. dendrite (synapse_at (snd st) r) = d
                \<and> completion (synapse_at (snd st) r) = [])
      then (terminal_at (snd st) d)\<lparr>status_code := 204\<rparr>
      else terminal_at (snd st) d)"
proof (induction rs arbitrary: st)
  case Nil
  show ?case by simp
next
  case (Cons r rs)
  let ?st' = "loop_body t r st"
  let ?P = "\<lambda>r. dendrite (synapse_at (snd st) r) = d \<and> completion (synapse_at (snd st) r) = []"
  have unroll: "for_synapse_in t (r # rs) st = for_synapse_in t rs ?st'"
    by simp
  have step: "terminal_at (snd (for_synapse_in t (r # rs) st)) d =
     (if status_code (terminal_at (snd ?st') d) = 200
         \<and> (\<exists>r \<in> set rs. dendrite (synapse_at (snd ?st') r) = d
                \<and> completion (synapse_at (snd ?st') r) = [])
      then (terminal_at (snd ?st') d)\<lparr>status_code := 204\<rparr>
      else terminal_at (snd ?st') d)"
    unfolding unroll by (rule Cons.IH)
  have ex: "(\<exists>x \<in> set (r # rs). ?P x) = (?P r \<or> (\<exists>x \<in> set rs. ?P x))"
    by simp
  show ?case
    unfolding step loop_body_synapse_at loop_body_terminal_at ex
    by (rule reclassify_twice)
qed

lemma first_pass_store:
  "synapse_at (snd (first_pass rs us t h)) = synapse_at h"
  "terminal_at (snd (first_pass rs us t h)) d =
     (if status_code (terminal_at h d) = 200
         \<and> (\<exists>r \<in> set rs. dendrite (synapse_at h r) = d \<and> completion (synapse_at h r) = [])
      then (terminal_at h d)\<lparr>status_code := 204\<rparr>
      else terminal_at h d)"
  unfolding first_pass_def
  by (simp_all only: for_synapse_in_synapse_at for_synapse_in_terminal_at snd_conv)

lemma first_pass_uids: "uids (fst (first_pass rs us t h)) = us"
  unfolding first_pass_def by (simp add: for_synapse_in_uids)

lemma init_store: "snd (DendriteResponseEvent_init rs us t h) = snd (first_pass rs us t h)"
  by (simp add: DendriteResponseEvent_init_def Let_def split: prod.split)

lemma init_event:
  "fst (DendriteResponseEvent_init rs us t h) =
     \<lparr>uids = us,
      completions = map (get_completion (snd (first_pass rs us t h))) rs,
      status_messages =
        map (\<lambda>r. status_message (get_dendrite (snd (first_pass rs us t h)) r)) rs,
      status_codes = map (\<lambda>r. status_code (get_dendrite (snd (first_pass rs us t h)) r)) rs,
      timings =
        map (\<lambda>r. py_or (process_time (get_dendrite (snd (first_pass rs us t h)) r)) t) rs\<rparr>"
proof -
  obtain self h' where fp: "first_pass rs us t h = (self, h')"
    by (cases "first_pass rs us t h")
  have "uids self = us"
    using first_pass_uids [of rs us t h] by (simp add: fp)
  then show ?thesis
    by (simp add: DendriteResponseEvent_init_def fp Let_def)
qed

lemma get_completion_first_pass:
  "get_completion (snd (first_pass rs us t h)) r = get_completion h r"
  by (simp add: get_completion_def first_pass_store(1))

lemma get_dendrite_first_pass:
  "get_dendrite (snd (first_pass rs us t h)) r =
     (if status_code (get_dendrite h r) = 200
         \<and> (\<exists>r' \<in> set rs. dendrite (synapse_at h r') = dendrite (synapse_at h r)
                \<and> get_completion h r' = [])
      then (get_dendrite h r)\<lparr>status_code := 204\<rparr>
      else get_dendrite h r)"
  unfolding get_dendrite_def get_completion_def first_pass_store ..

lemma store_eqI:
  "synapse_at h1 = synapse_at h2 \<Longrightarrow> terminal_at h1 = terminal_at h2 \<Longrightarrow> h1 = (h2::store)"
  by (rule store.equality) simp_all

lemma two_answers_simps:
  "get_completion two_answers 0 = []"
  "get_completion two_answers (Suc 0) = ''Paris''"
  "get_dendrite two_answers 0 = \<lparr>process_time = Some (1/20), status_code = 200, status_message = ''OK''\<rparr>"
  "get_dendrite two_answers (Suc 0) = \<lparr>process_time = Some (3/100), status_code = 200, status_message = ''OK''\<rparr>"
  by (simp_all add: two_answers_def batch_store_def get_completion_def get_dendrite_def)

lemma batch_store_dendrite [simp]: "dendrite (synapse_at (batch_store xs) r) = r"
  by (simp add: batch_store_def)

lemma first_pass_store_idem:
  "snd (first_pass rs us t (snd (first_pass rs us t h))) = snd (first_pass rs us t h)"
proof (rule store_eqI)
  show "synapse_at (snd (first_pass rs us t (snd (first_pass rs us t h))))
          = synapse_at (snd (first_pass rs us t h))"
    by (simp only: first_pass_store(1))
next
  show "terminal_at (snd (first_pass rs us t (snd (first_pass rs us t h))))
          = terminal_at (snd (first_pass rs us t h))"
  proof
    fix d
    let ?E = "\<exists>r \<in> set rs. dendrite (synapse_at h r) = d \<and> completion (synapse_at h r) = []"
    have once: "terminal_at (snd (first_pass rs us t h)) d =
        (if status_code (terminal_at h d) = 200 \<and> ?E
         then (terminal_at h d)\<lparr>status_code := 204\<rparr> else terminal_at h d)"
      by (rule first_pass_store(2))
    have twice: "terminal_at (snd (first_pass rs us t (snd (first_pass rs us t h)))) d =
        (if status_code (terminal_at (snd (first_pass rs us t h)) d) = 200 \<and> ?E
         then (terminal_at (snd (first_pass rs us t h)) d)\<lparr>status_code := 204\<rparr>
         else terminal_at (snd (first_pass rs us t h)) d)"
      by (simp only: first_pass_store)
    show "terminal_at (snd (first_pass rs us t (snd (first_pass rs us t h)))) d
            = terminal_at (snd (first_pass rs us t h)) d"
      unfolding twice unfolding once
      by (cases "status_code (terminal_at h d) = 200"; cases ?E; simp)
  qed
qed

subsection \<open>What the loop computes before the attributes are assigned anew\<close>

lemma loop_body_timings:
  "timings (fst (loop_body t r st)) =
     timings (fst st) @ [classified_timing t (get_dendrite (snd st) r)]"
  by (cases st)
    (auto simp add: loop_body_def Let_def classified_timing_def set_status_code_def
      get_dendrite_def)

lemma classified_timing_reclassified:
  "classified_timing t
     (if status_code d = 200 \<and> E then d\<lparr>status_code := 204\<rparr> else d) = classified_timing t d"
  by (auto simp add: classified_timing_def)

lemma classified_timing_loop_body:
  "classified_timing t (get_dendrite (snd (loop_body t r st)) r') =
     classified_timing t (get_dendrite (snd st) r')"
  unfolding get_dendrite_def loop_body_synapse_at loop_body_terminal_at
  by (rule classified_timing_reclassified)

lemma for_synapse_in_timings:
  "timings (fst (for_synapse_in t rs st)) =
     timings (fst st) @ map (\<lambda>r. classified_timing t (get_dendrite (snd st) r)) rs"
proof (induction rs arbitrary: st)
  case Nil
  show ?case by simp
next
  case (Cons r rs)
  have "timings (fst (for_synapse_in t (r # rs) st)) =
      timings (fst (loop_body t r st))
        @ map (\<lambda>r'. classified_timing t (get_dendrite (snd (loop_body t r st)) r')) rs"
    using Cons.IH [of "loop_body t r st"] by simp
  then show ?case
    by (simp only: loop_body_timings classified_timing_loop_body append_assoc
        list.map append_Cons append_Nil)
qed

lemma first_pass_timings:
  "timings (fst (first_pass rs us t h)) = map (\<lambda>r. classified_timing t (get_dendrite h r)) rs"
  by (simp add: first_pass_def for_synapse_in_timings)

lemma first_pass_timing_408:
  "i < length rs \<Longrightarrow> status_code (get_dendrite h (rs ! i)) = 408
     \<Longrightarrow> timings (fst (first_pass rs us t h)) ! i = t"
  by (simp add: first_pass_timings classified_timing_def)

lemma first_pass_timing_other:
  "i < length rs \<Longrightarrow> status_code (get_dendrite h (rs ! i)) \<notin> {200, 204, 408}
     \<Longrightarrow> timings (fst (first_pass rs us t h)) ! i = 0"
  by (simp add: first_pass_timings classified_timing_def)

lemma init_timings:
  "timings (fst (DendriteResponseEvent_init rs us t h)) =
     map (\<lambda>r. py_or (process_time (get_dendrite h r)) t) rs"
  by (simp add: init_event get_dendrite_first_pass)

subsection \<open>Reclassification of empty successful responses\<close>

text \<open>
  Claim C1. In every batch, a response that enters the constructor with the empty
  string as completion and status code 200 has status code 204, not 200, at its index
  of the event's \<open>status_codes\<close>.
\<close>

theorem empty_ok_reclassified_204:
  assumes "DendriteResponseEvent_init responses uids_arg timeout h = (ev, h')"
    and "i < length responses"
    and "get_completion h (responses ! i) = []"
    and "status_code (get_dendrite h (responses ! i)) = 200"
  shows "status_codes ev ! i = 204"
proof -
  have ev: "ev = fst (DendriteResponseEvent_init responses uids_arg timeout h)"
    by (simp add: assms(1))
  have "\<exists>r \<in> set responses.
          dendrite (synapse_at h r) = dendrite (synapse_at h (responses ! i))
          \<and> get_completion h r = []"
    using assms(2,3) nth_mem by blast
  then have "status_code (get_dendrite (snd (first_pass responses uids_arg timeout h))
               (responses ! i)) = 204"
    by (simp add: get_dendrite_first_pass assms(4))
  then show ?thesis
    by (simp add: ev init_event assms(2))
qed

theorem empty_ok_reclassified_204_witness:
  "get_completion two_answers ([0, 1] ! 0) = []
   \<and> status_code (get_dendrite two_answers ([0, 1] ! 0)) = 200
   \<and> status_codes (fst (DendriteResponseEvent_init [0, 1] [11, 12] (1/10) two_answers)) ! 0 = 204"
  using empty_ok_reclassified_204 [OF surjective_pairing, of 0 "[0, 1]" two_answers "[11, 12]" "1/10"]
  by (simp add: two_answers_simps)

subsection \<open>Timing of a response that timed out\<close>

text \<open>
  Claim C2 says that a response with status code 408 has the round timeout at its index
  of the event's \<open>timings\<close>. The loop computes exactly this, but lines 36 to 38 then
  replace the list by \<^verbatim>\<open>process_time or timeout\<close> for every response. For a node that
  timed out after 0.15 seconds in a round with timeout 0.1, the loop has recorded 0.1
  and the event holds 0.15.
\<close>

theorem timed_out_timing_evaluated:
  "status_code (get_dendrite timed_out 0) = 408
   \<and> timings (fst (first_pass [0] [11] (1/10) timed_out)) = [1/10]
   \<and> timings (fst (DendriteResponseEvent_init [0] [11] (1/10) timed_out)) = [3/20]"
  by (simp add: timed_out_def batch_store_def DendriteResponseEvent_init_def first_pass_def
      loop_body_def set_status_code_def get_completion_def get_dendrite_def Let_def)

subsection \<open>Timing of a response with another status code\<close>

text \<open>
  Claim C3 says that a response whose status code is none of 200, 204 and 408 has
  timing 0. The loop computes exactly this, under the comment
  \<^verbatim>\<open>situation where miner is not alive\<close>, but lines 36 to 38 then replace the
  list by \<^verbatim>\<open>process_time or timeout\<close>. For an unreachable node (status code 503,
  no process time) in a round with timeout 0.1, the loop has recorded 0 and the event
  holds 0.1.
\<close>

theorem unreachable_timing_evaluated:
  "status_code (get_dendrite unreachable 0) = 503
   \<and> timings (fst (first_pass [0] [11] (1/10) unreachable)) = [0]
   \<and> timings (fst (DendriteResponseEvent_init [0] [11] (1/10) unreachable)) = [1/10]"
  by (simp add: unreachable_def batch_store_def DendriteResponseEvent_init_def first_pass_def
      loop_body_def set_status_code_def get_completion_def get_dendrite_def Let_def)

subsection \<open>Timing of a successful response\<close>

text \<open>
  Claim C4. In every batch, a response with status code 200 and a truthy process time
  (a number other than zero, so in particular a positive one) has that process time
  at its index of the event's \<open>timings\<close>.
\<close>

theorem ok_timing_is_process_time:
  assumes "DendriteResponseEvent_init responses uids_arg timeout h = (ev, h')"
    and "i < length responses"
    and "status_code (get_dendrite h (responses ! i)) = 200"
    and "process_time (get_dendrite h (responses ! i)) = Some p"
    and "p \<noteq> 0"
  shows "timings ev ! i = p"
proof -
  have ev: "ev = fst (DendriteResponseEvent_init responses uids_arg timeout h)"
    by (simp add: assms(1))
  have "process_time (get_dendrite (snd (first_pass responses uids_arg timeout h))
          (responses ! i)) = Some p"
    by (simp add: get_dendrite_first_pass assms(4))
  then show ?thesis
    by (simp add: ev init_event assms(2,5))
qed

theorem ok_timing_is_process_time_witness:
  "status_code (get_dendrite two_answers ([0, 1] ! 1)) = 200
   \<and> process_time (get_dendrite two_answers ([0, 1] ! 1)) = Some (3/100)
   \<and> timings (fst (DendriteResponseEvent_init [0, 1] [11, 12] (1/10) two_answers)) ! 1 = 3/100"
  using ok_timing_is_process_time [OF surjective_pairing, of 1 "[0, 1]" two_answers "3/100" "[11, 12]" "1/10"]
  by (simp add: two_answers_simps)

subsection \<open>The attributes as lines 35 to 42 leave them\<close>

text \<open>
  Claim C5 says that the final status code of every response is the one supplied on
  input, before the reclassification. It is not: the loop has assigned 204 to the
  metadata object itself, and line 42 reads that object. A response that enters with
  the empty completion and status code 200 ends with 204.
\<close>

theorem final_status_code_not_original_counterexample:
  "get_completion empty_answer 0 = []
   \<and> status_code (get_dendrite empty_answer 0) = 200
   \<and> status_codes (fst (DendriteResponseEvent_init [0] [11] (1/10) empty_answer)) ! 0 = 204
   \<and> status_codes (fst (DendriteResponseEvent_init [0] [11] (1/10) empty_answer)) ! 0
       \<noteq> status_code (get_dendrite empty_answer 0)"
  by (simp add: empty_answer_def batch_store_def DendriteResponseEvent_init_def first_pass_def
      loop_body_def set_status_code_def get_completion_def get_dendrite_def Let_def)

text \<open>
  Claim C5, amended. For every response of the batch, the final timing is
  \<^verbatim>\<open>process_time or timeout\<close>, the final status message is the one supplied on
  input, and the final status code is the one the reclassification of the loop has
  left in the metadata object: 204 when the object entered with 200 and a response of
  the batch that carries this object (the response itself, when no object is shared)
  has the empty completion, and the code supplied on input otherwise.
\<close>

theorem second_pass_entries:
  assumes "DendriteResponseEvent_init responses uids_arg timeout h = (ev, h')"
    and "i < length responses"
  shows "timings ev ! i = py_or (process_time (get_dendrite h (responses ! i))) timeout
    \<and> status_messages ev ! i = status_message (get_dendrite h (responses ! i))
    \<and> status_codes ev ! i =
        (if status_code (get_dendrite h (responses ! i)) = 200
            \<and> (\<exists>r \<in> set responses.
                   dendrite (synapse_at h r) = dendrite (synapse_at h (responses ! i))
                   \<and> get_completion h r = [])
         then 204 else status_code (get_dendrite h (responses ! i)))"
proof -
  have ev: "ev = fst (DendriteResponseEvent_init responses uids_arg timeout h)"
    by (simp add: assms(1))
  show ?thesis
    by (simp add: ev init_event assms(2) get_dendrite_first_pass)
qed

theorem second_pass_entries_witness:
  "timings (fst (DendriteResponseEvent_init [0, 1] [11, 12] (1/10) two_answers)) ! 0 = 1/20
   \<and> status_messages (fst (DendriteResponseEvent_init [0, 1] [11, 12] (1/10) two_answers)) ! 0 = ''OK''
   \<and> status_codes (fst (DendriteResponseEvent_init [0, 1] [11, 12] (1/10) two_answers)) ! 0 = 204
   \<and> status_codes (fst (DendriteResponseEvent_init [0, 1] [11, 12] (1/10) two_answers)) ! 1 = 200"
  using
    second_pass_entries [where i = 0 and responses = "[0, 1]" and uids_arg = "[11, 12]"
      and timeout = "1/10" and h = two_answers, OF surjective_pairing]
    second_pass_entries [where i = 1 and responses = "[0, 1]" and uids_arg = "[11, 12]"
      and timeout = "1/10" and h = two_answers, OF surjective_pairing]
  by (simp add: two_answers_simps) (simp add: two_answers_def)

text \<open>
  With a shared metadata object the reclassification reaches every response that
  carries it, whatever its own completion and its place in the batch.
\<close>

lemma shared_metadata_status_codes:
  "status_codes (fst (DendriteResponseEvent_init [0, 1] [11, 12] (1/10) shared_metadata))
     = [204, 204]"
  "status_codes (fst (first_pass [1, 0] [11, 12] (1/10) shared_metadata)) = [200, 204]"
  "status_codes (fst (DendriteResponseEvent_init [1, 0] [11, 12] (1/10) shared_metadata))
     = [204, 204]"
  by (simp_all add: shared_metadata_def DendriteResponseEvent_init_def first_pass_def
      loop_body_def set_status_code_def get_completion_def get_dendrite_def Let_def)

subsection \<open>Lengths and alignment of the sequences\<close>

text \<open>
  Claim C6 says that all five sequences, \<open>uids\<close> included, have the length of the
  batch. The constructor stores \<open>uids\<close> as it receives it and never compares its length
  with the number of responses: two responses with three uids give an event whose
  \<open>uids\<close> has length three.
\<close>

theorem uids_length_counterexample:
  "length (uids (fst (DendriteResponseEvent_init [0, 1] [11, 12, 13] (1/10) two_answers)))
     \<noteq> length [0 :: ref, 1]"
  by (simp add: DendriteResponseEvent_init_def first_pass_def loop_body_def Let_def)

text \<open>
  Claim C6, amended. For every batch, uid sequence and timeout, the event's
  \<open>completions\<close>, \<open>timings\<close>, \<open>status_messages\<close> and \<open>status_codes\<close> all have the length of
  the batch, and entry \<open>i\<close> of each is read from response \<open>i\<close> of the batch (as the store
  holds it after the call); \<open>uids\<close> is the sequence that was passed in, so its length is
  the length of the batch exactly when the caller passed that many uids.
\<close>

theorem event_sequences_aligned:
  assumes "DendriteResponseEvent_init responses uids_arg timeout h = (ev, h')"
  shows "length (completions ev) = length responses
    \<and> length (timings ev) = length responses
    \<and> length (status_messages ev) = length responses
    \<and> length (status_codes ev) = length responses
    \<and> uids ev = uids_arg
    \<and> (\<forall>i < length responses.
          completions ev ! i = get_completion h' (responses ! i)
          \<and> timings ev ! i = py_or (process_time (get_dendrite h' (responses ! i))) timeout
          \<and> status_messages ev ! i = status_message (get_dendrite h' (responses ! i))
          \<and> status_codes ev ! i = status_code (get_dendrite h' (responses ! i)))"
proof -
  have ev: "ev = fst (DendriteResponseEvent_init responses uids_arg timeout h)"
    and h': "h' = snd (first_pass responses uids_arg timeout h)"
    using assms init_store [of responses uids_arg timeout h] by simp_all
  show ?thesis
    by (simp add: ev h' init_event)
qed

theorem event_sequences_aligned_witness:
  "length (completions (fst (DendriteResponseEvent_init [0, 1] [11, 12] (1/10) two_answers))) = 2
   \<and> length (timings (fst (DendriteResponseEvent_init [0, 1] [11, 12] (1/10) two_answers))) = 2
   \<and> length (status_messages (fst (DendriteResponseEvent_init [0, 1] [11, 12] (1/10) two_answers))) = 2
   \<and> length (status_codes (fst (DendriteResponseEvent_init [0, 1] [11, 12] (1/10) two_answers))) = 2
   \<and> uids (fst (DendriteResponseEvent_init [0, 1] [11, 12] (1/10) two_answers)) = [11, 12]
   \<and> completions (fst (DendriteResponseEvent_init [0, 1] [11, 12] (1/10) two_answers)) ! 1 = ''Paris''"
  using event_sequences_aligned [where responses = "[0, 1]" and uids_arg = "[11, 12]"
      and timeout = "1/10" and h = two_answers, OF surjective_pairing]
  by (simp add: init_store get_completion_first_pass two_answers_simps)

subsection \<open>The effect on the responses\<close>

text \<open>
  Claim C7 says that the constructor leaves every input response unchanged. It does
  not: line 21 assigns the status code 204 to the metadata object of a response with
  the empty completion and status code 200, and the caller sees the new code.
\<close>

theorem input_status_code_changed_counterexample:
  "status_code (get_dendrite empty_answer 0) = 200
   \<and> status_code (get_dendrite (snd (DendriteResponseEvent_init [0] [11] (1/10) empty_answer)) 0)
       = 204
   \<and> get_dendrite (snd (DendriteResponseEvent_init [0] [11] (1/10) empty_answer)) 0
       \<noteq> get_dendrite empty_answer 0"
  by (simp add: empty_answer_def batch_store_def DendriteResponseEvent_init_def first_pass_def
      loop_body_def set_status_code_def get_completion_def get_dendrite_def Let_def)

text \<open>
  Claim C7, amended. The constructor leaves every synapse (its completion and the
  metadata object it points to) unchanged, and in every metadata object the process
  time and the status message; the only effect is on status codes, and it is the
  reclassification: a status code 200 becomes 204 when a response of the batch with
  the empty completion carries the object, and every other status code stays.
\<close>

theorem init_changes_only_status_code:
  assumes "DendriteResponseEvent_init responses uids_arg timeout h = (ev, h')"
  shows "synapse_at h' = synapse_at h
    \<and> process_time (terminal_at h' d) = process_time (terminal_at h d)
    \<and> status_message (terminal_at h' d) = status_message (terminal_at h d)
    \<and> status_code (terminal_at h' d) =
        (if status_code (terminal_at h d) = 200
            \<and> (\<exists>r \<in> set responses. dendrite (synapse_at h r) = d
                   \<and> completion (synapse_at h r) = [])
         then 204 else status_code (terminal_at h d))"
proof -
  have h': "h' = snd (first_pass responses uids_arg timeout h)"
    using assms init_store [of responses uids_arg timeout h] by simp
  show ?thesis
    by (simp add: h' first_pass_store)
qed

theorem init_changes_only_status_code_witness:
  "synapse_at (snd (DendriteResponseEvent_init [0, 1] [11, 12] (1/10) two_answers))
     = synapse_at two_answers
   \<and> terminal_at (snd (DendriteResponseEvent_init [0, 1] [11, 12] (1/10) two_answers)) 0
     = \<lparr>process_time = Some (1/20), status_code = 204, status_message = ''OK''\<rparr>
   \<and> terminal_at (snd (DendriteResponseEvent_init [0, 1] [11, 12] (1/10) two_answers)) 1
     = \<lparr>process_time = Some (3/100), status_code = 200, status_message = ''OK''\<rparr>"
  using
    init_changes_only_status_code [where responses = "[0, 1]" and uids_arg = "[11, 12]"
      and timeout = "1/10" and h = two_answers and d = 0, OF surjective_pairing]
    init_changes_only_status_code [where responses = "[0, 1]" and uids_arg = "[11, 12]"
      and timeout = "1/10" and h = two_answers and d = 1, OF surjective_pairing]
  by (simp add: two_answers_def batch_store_def TerminalInfo.equality)

subsection \<open>Constructing the event twice\<close>

text \<open>
  Claim C8. Constructing the event a second time from the same batch, uid sequence and
  timeout, on the store the first construction has left, yields the same completions,
  timings, status messages and status codes (and uids), and changes the store no
  more.
\<close>

theorem construct_twice_same_event:
  assumes "DendriteResponseEvent_init responses uids_arg timeout h = (ev1, h1)"
    and "DendriteResponseEvent_init responses uids_arg timeout h1 = (ev2, h2)"
  shows "completions ev2 = completions ev1 \<and> timings ev2 = timings ev1
    \<and> status_messages ev2 = status_messages ev1 \<and> status_codes ev2 = status_codes ev1
    \<and> uids ev2 = uids ev1 \<and> h2 = h1"
proof -
  have h1: "h1 = snd (first_pass responses uids_arg timeout h)"
    using assms(1) init_store [of responses uids_arg timeout h] by simp
  have h2: "h2 = snd (first_pass responses uids_arg timeout h1)"
    using assms(2) init_store [of responses uids_arg timeout h1] by simp
  have same: "snd (first_pass responses uids_arg timeout h1) = h1"
    unfolding h1 by (rule first_pass_store_idem)
  have ev1: "ev1 = fst (DendriteResponseEvent_init responses uids_arg timeout h)"
    by (simp add: assms(1))
  have ev2: "ev2 = fst (DendriteResponseEvent_init responses uids_arg timeout h1)"
    by (simp add: assms(2))
  have "ev2 = ev1"
    unfolding ev1 ev2 init_event same unfolding h1 ..
  then show ?thesis
    by (simp add: h2 same)
qed

theorem construct_twice_same_event_witness:
  "status_codes (fst (DendriteResponseEvent_init [0, 1] [11, 12] (1/10)
       (snd (DendriteResponseEvent_init [0, 1] [11, 12] (1/10) two_answers))))
     = status_codes (fst (DendriteResponseEvent_init [0, 1] [11, 12] (1/10) two_answers))
   \<and> status_codes (fst (DendriteResponseEvent_init [0, 1] [11, 12] (1/10) two_answers))
     = [204, 200]"
  using construct_twice_same_event [where responses = "[0, 1]" and uids_arg = "[11, 12]"
      and timeout = "1/10" and h = two_answers, OF surjective_pairing surjective_pairing]
  by (simp add: init_event get_dendrite_first_pass two_answers_simps) (simp add: two_answers_def)

section \<open>Properties of the conversation state\<close>

lemma query_Inr:
  "query p c t0 t1 self m r = Inr (resp, self') \<Longrightarrow>
     messages self' = messages self @ [\<lparr>content = m, role = r\<rparr>,
                                       \<lparr>content = resp, role = ''assistant''\<rparr>]
     \<and> times_list self' = times_list self @ [0, t1 - t0]"
  by (auto simp add: query_def Let_def split: sum.splits)

lemma after_query_lengths:
  "length (messages self) = length (times_list self) \<Longrightarrow>
     length (messages (after_query self c)) = length (times_list (after_query self c))"
proof (cases c)
  case (fields p cl t0 t1 m r)
  assume inv: "length (messages self) = length (times_list self)"
  show ?thesis
  proof (cases "query p cl t0 t1 self m r")
    case (Inl e)
    then show ?thesis by (simp add: fields inv)
  next
    case (Inr res)
    obtain resp self' where res: "res = (resp, self')" by (cases res)
    from query_Inr [of p cl t0 t1 self m r resp self'] Inr res inv
    show ?thesis by (simp add: fields)
  qed
qed

lemma after_queries_lengths:
  "length (messages self) = length (times_list self) \<Longrightarrow>
     length (messages (after_queries self cs)) = length (times_list (after_queries self cs))"
  by (induction cs arbitrary: self) (simp_all add: after_query_lengths)

lemma helpful_first_call:
  "query fixed_pipeline no_cleaner 100 102 helpful ''What is the capital of Texas?'' ''user''
     = Inr (''Austin'', helpful_answered)"
  by (simp add: query_def forward_def fixed_pipeline_def no_cleaner_def Let_def
      helpful_answered_def helpful_def vLLM_LLM_init_def)

lemma helpful_two_calls:
  "after_queries helpful
     [(fixed_pipeline, no_cleaner, 100, 102, ''What is the capital of Texas?'', ''user''),
      (failing_pipeline, no_cleaner, 103, 104, ''And of Ohio?'', ''user'')]
   = helpful_answered"
  by (simp add: helpful_first_call) (simp add: query_def forward_def failing_pipeline_def)

text \<open>
  Claim C10. After construction \<open>messages\<close> and \<open>times\<close> both have length one. A call of
  \<^verbatim>\<open>query\<close> that returns has appended exactly two entries to each: the message of the
  call and the assistant's response to \<open>messages\<close>, and 0 and the elapsed time to
  \<open>times\<close>. After any sequence of calls on a constructed object, whether they returned
  or raised, the two lists have the same length.
\<close>

theorem messages_times_same_length:
  "length (messages (vLLM_LLM_init sp n te tp)) = 1
   \<and> length (times_list (vLLM_LLM_init sp n te tp)) = 1
   \<and> (query p c t0 t1 self m r = Inr (resp, self') \<longrightarrow>
        messages self' = messages self @ [\<lparr>content = m, role = r\<rparr>,
                                          \<lparr>content = resp, role = ''assistant''\<rparr>]
        \<and> times_list self' = times_list self @ [0, t1 - t0])
   \<and> length (messages (after_queries (vLLM_LLM_init sp n te tp) cs))
       = length (times_list (after_queries (vLLM_LLM_init sp n te tp) cs))"
proof -
  have init: "length (messages (vLLM_LLM_init sp n te tp)) = 1"
    "length (times_list (vLLM_LLM_init sp n te tp)) = 1"
    by (simp_all add: vLLM_LLM_init_def Let_def)
  have run: "length (messages (after_queries (vLLM_LLM_init sp n te tp) cs))
       = length (times_list (after_queries (vLLM_LLM_init sp n te tp) cs))"
    by (rule after_queries_lengths) (simp add: init)
  show ?thesis
    using init run query_Inr [of p c t0 t1 self m r resp self'] by blast
qed

theorem messages_times_same_length_witness:
  "query fixed_pipeline no_cleaner 100 102 helpful ''What is the capital of Texas?'' ''user''
     = Inr (''Austin'', helpful_answered)
   \<and> messages helpful_answered = messages helpful
         @ [\<lparr>content = ''What is the capital of Texas?'', role = ''user''\<rparr>,
            \<lparr>content = ''Austin'', role = ''assistant''\<rparr>]
   \<and> times_list helpful_answered = times_list helpful @ [0, 102 - 100]
   \<and> length (messages helpful) = 1
   \<and> length (times_list helpful) = 1
   \<and> length (messages (after_queries helpful
         [(fixed_pipeline, no_cleaner, 100, 102, ''What is the capital of Texas?'', ''user''),
          (failing_pipeline, no_cleaner, 103, 104, ''And of Ohio?'', ''user'')]))
       = length (times_list (after_queries helpful
         [(fixed_pipeline, no_cleaner, 100, 102, ''What is the capital of Texas?'', ''user''),
          (failing_pipeline, no_cleaner, 103, 104, ''And of Ohio?'', ''user'')]))"
proof -
  note inst = messages_times_same_length
    [where p = fixed_pipeline and c = no_cleaner and ?t0.0 = 100 and ?t1.0 = 102
      and self = helpful and m = "''What is the capital of Texas?''" and r = "''user''"
      and resp = "''Austin''" and self' = helpful_answered
      and sp = "''You are a helpful AI assistant''" and n = 256 and te = "7/10"
      and tp = "19/20"
      and cs = "[(fixed_pipeline, no_cleaner, 100, 102, ''What is the capital of Texas?'', ''user''),
          (failing_pipeline, no_cleaner, 103, 104, ''And of Ohio?'', ''user'')]",
      folded helpful_def]
  from inst helpful_first_call show ?thesis by blast
qed

end
